theory Spec2Isabelle
  imports Main "HOL-Library.Sublist"
begin

section \<open>Python values\<close>

text \<open>
  A Python \<^verbatim>\<open>str\<close> is a sequence of Unicode code points, so it is modelled as a list of
  natural numbers; \<open>lit\<close> embeds an ASCII literal of the source.
\<close>

type_synonym str = "nat list"

definition lit :: "string \<Rightarrow> str" where
  "lit cs = map of_char cs"

text \<open>
  An attachment (\<^verbatim>\<open>discord.File\<close>) holds a reference \<open>fp\<close> to a readable stream and a
  file name. Streams live in a store and are known by their reference.
\<close>

record discord_file =
  fp :: nat
  filename :: str

text \<open>A guild (the scope of an event) has a name and a list of channels; a channel is its id.\<close>

type_synonym channel = nat

record guild =
  name :: str
  channels :: "channel list"

text \<open>
  The attributes of a member that \<^verbatim>\<open>cogs/info/alias.py\<close> reads. \<open>avatar\<close> is the avatar's
  hash (absent for a default avatar) and \<open>member_avatar_url\<close> the URL it is served from.
  The attributes \<^verbatim>\<open>id\<close>, \<^verbatim>\<open>name\<close>, \<^verbatim>\<open>avatar_url\<close> and \<^verbatim>\<open>guild\<close> of the source carry the
  prefix \<open>member_\<close> here, since \<open>id\<close> is a constant of HOL and the other names are fields of
  \<open>guild\<close> and \<open>MemberChanges\<close>.
\<close>

record member =
  member_id :: nat
  member_name :: str
  nick :: "str option"
  display_name :: str
  avatar :: "str option"
  member_avatar_url :: str
  mention :: str
  member_guild :: guild

record MemberChanges =
  avatar_url :: "str option"
  username :: "str option"
  nickname :: "str option"

text \<open>
  The values an event's attribute mapping can hold: \<^verbatim>\<open>None\<close>, a string, an attachment,
  a list, a member, a \<^verbatim>\<open>MemberChanges\<close>, or any other object, known by its identity only
  (an embed, for one). Of these only a list is unhashable, and only a string or a list can
  be iterated over.
\<close>

datatype pyval =
    VNone
  | VStr str
  | VFile discord_file
  | VList "pyval list"
  | VMember member
  | VChanges MemberChanges
  | VObj nat

type_synonym attributes = "str \<rightharpoonup> pyval"

text \<open>
  The exceptions: \<^verbatim>\<open>KeyError\<close> with the missing key, \<^verbatim>\<open>TypeError\<close>, \<^verbatim>\<open>AttributeError\<close>
  with the name of the attribute, \<^verbatim>\<open>ValueError\<close> with its message, and the exceptions
  of code that the sources do not hold.
\<close>

datatype error =
    KeyError pyval
  | TypeError
  | AttributeError str
  | ValueError str
  | ExternalError nat

section \<open>journal/impl/channel\_output.py\<close>

definition ICONS :: "(str \<times> str) list" where
  "ICONS = [
     (lit ''info'', [0x2139]),  \<comment> \<open>INFORMATION SOURCE\<close>
     (lit ''idea'', [0x1F4A1]),  \<comment> \<open>ELECTRIC LIGHT BULB\<close>
     (lit ''warning'', [0x26A0]),  \<comment> \<open>WARNING SIGN\<close>
     (lit ''error'', [0x274C]),  \<comment> \<open>CROSS MARK\<close>
     (lit ''forbidden'', [0x26D4]),  \<comment> \<open>NO ENTRY\<close>
     (lit ''critical'', [0x1F198]),  \<comment> \<open>SQUARED SOS\<close>
     (lit ''ok'', [0x1F197]),  \<comment> \<open>SQUARED OK\<close>
     (lit ''announce'', [0x1F4E3]),  \<comment> \<open>CHEERING MEGAPHONE\<close>
     (lit ''ban'', [0x1F528]),  \<comment> \<open>HAMMER\<close>
     (lit ''kick'', [0x1F462]),  \<comment> \<open>WOMANS BOOTS\<close>
     (lit ''muffled'', [0x1F637]),  \<comment> \<open>FACE WITH MEDICAL MASK\<close>
     (lit ''mute'', [0x1F64A]),  \<comment> \<open>SPEAK-NO-EVIL MONKEY\<close>
     (lit ''jail'', [0x1F6A8]),  \<comment> \<open>POLICE CARS REVOLVING LIGHT\<close>
     (lit ''flag'', [0x1F6A9]),  \<comment> \<open>TRIANGULAR FLAG ON POST\<close>
     (lit ''deleted'', [0x1F480]),  \<comment> \<open>SKULL\<close>
     (lit ''nsfw'', [0x1F51E]),  \<comment> \<open>NO ONE UNDER EIGHTEEN SYMBOL\<close>
     (lit ''has-mail'', [0x1F4EC]),  \<comment> \<open>OPEN MAILBOX WITH RAISED FLAG\<close>
     (lit ''no-mail'', [0x1F4EA]),  \<comment> \<open>CLOSED MAILBOX WITH LOWERED FLAG\<close>
     (lit ''investigate'', [0x1F575]),  \<comment> \<open>SLEUTH OR SPY\<close>
     (lit ''watch'', [0x1F441]),  \<comment> \<open>EYE\<close>
     (lit ''edit'', [0x1F4DD]),  \<comment> \<open>MEMO\<close>
     (lit ''save'', [0x1F4BE]),  \<comment> \<open>FLOPPY DISK\<close>
     (lit ''writing'', [0x270D]),  \<comment> \<open>WRITING HAND\<close>
     (lit ''settings'', [0x1F6E0]),  \<comment> \<open>HAMMER AND WRENCH\<close>
     (lit ''deploy'', [0x1F680]),  \<comment> \<open>ROCKET\<close>
     (lit ''package'', [0x1F4E6]),  \<comment> \<open>PACKAGE\<close>
     (lit ''script'', [0x1F4DC]),  \<comment> \<open>SCROLL\<close>
     (lit ''key'', [0x1F511]),  \<comment> \<open>KEY\<close>
     (lit ''lock'', [0x1F512]),  \<comment> \<open>LOCK\<close>
     (lit ''unlock'', [0x1F513]),  \<comment> \<open>OPEN LOCK\<close>
     (lit ''folder'', [0x1F4C2]),  \<comment> \<open>OPEN FILE FOLDER\<close>
     (lit ''file'', [0x1F4C4]),  \<comment> \<open>PAGE FACING UP\<close>
     (lit ''book'', [0x1F4D4]),  \<comment> \<open>NOTEBOOK WITH DECORATIVE COVER\<close>
     (lit ''upload'', [0x1F4E4]),  \<comment> \<open>OUTBOX TRAY\<close>
     (lit ''download'', [0x1F4E5]),  \<comment> \<open>INBOX TRAY\<close>
     (lit ''bookmark'', [0x1F516]),  \<comment> \<open>BOOKMARK\<close>
     (lit ''journal'', [0x1F4D2]),  \<comment> \<open>LEDGER\<close>
     (lit ''attachment'', [0x1F4CE]),  \<comment> \<open>PAPERCLIP\<close>
     (lit ''clipboard'', [0x1F4CB]),  \<comment> \<open>CLIPBOARD\<close>
     (lit ''pin'', [0x1F4CC]),  \<comment> \<open>PUSHPIN\<close>
     (lit ''briefcase'', [0x1F4BC]),  \<comment> \<open>BRIEFCASE\<close>
     (lit ''cabinet'', [0x1F5C3]),  \<comment> \<open>CARD FILE BOX\<close>
     (lit ''trash'', [0x1F5D1]),  \<comment> \<open>WASTEBASKET\<close>
     (lit ''hourglass'', [0x23F3]),  \<comment> \<open>HOURGLASS WITH FLOWING SAND\<close>
     (lit ''person'', [0x1F464]),  \<comment> \<open>BUST IN SILHOUETTE\<close>
     (lit ''navigate'', [0x1F9ED]),  \<comment> \<open>COMPASS\<close>
     (lit ''bot'', [0x1F916]),  \<comment> \<open>ROBOT FACE\<close>
     (lit ''news'', [0x1F4F0]),  \<comment> \<open>NEWSPAPER\<close>
     (lit ''art'', [0x1F3A8]),  \<comment> \<open>ARTIST PALETTE\<close>
     (lit ''tag'', [0x1F3AB]),  \<comment> \<open>TICKET\<close>
     (lit ''music'', [0x1F3B5]),  \<comment> \<open>MUSICAL NOTE\<close>
     (lit ''link'', [0x1F517]),  \<comment> \<open>LINK SYMBOL\<close>
     (lit ''alert'', [0x1F514]),  \<comment> \<open>BELL\<close>
     (lit ''game'', [0x1F3AE]),  \<comment> \<open>VIDEO GAME\<close>
     (lit ''search'', [0x1F50D]),  \<comment> \<open>LEFT-POINTING MAGNIFYING GLASS\<close>
     (lit ''bomb'', [0x1F4A3]),  \<comment> \<open>BOMB\<close>
     (lit ''gift'', [0x1F381]),  \<comment> \<open>WRAPPED PRESENT\<close>
     (lit ''celebration'', [0x1F389]),  \<comment> \<open>PARTY POPPER\<close>
     (lit ''international'', [0x1F310]),  \<comment> \<open>GLOBE WITH MERIDIANS\<close>
     (lit ''award'', [0x1F3C6]),  \<comment> \<open>TROPHY\<close>
     (lit ''luck'', [0x1F340])  \<comment> \<open>FOUR LEAF CLOVER\<close>
  ]"

text \<open>
  \<^verbatim>\<open>ICONS[icon]\<close>: a dictionary lookup raises \<^verbatim>\<open>KeyError\<close> for a missing key and
  \<^verbatim>\<open>TypeError\<close> for an unhashable key.
\<close>

fun ICONS_getitem :: "pyval \<Rightarrow> error + str" where
  "ICONS_getitem (VStr k) =
     (case map_of ICONS k of None \<Rightarrow> Inl (KeyError (VStr k)) | Some glyph \<Rightarrow> Inr glyph)"
| "ICONS_getitem (VList vs) = Inl TypeError"
| "ICONS_getitem v = Inl (KeyError v)"

text \<open>
  Modelled from the spec: the base class \<^verbatim>\<open>Listener\<close> (\<^verbatim>\<open>journal/listener.py\<close>) is not
  among the sources. The spec's listener registration holds the Router it was registered
  against, the topic path, the recursion flag and an optional filter predicate over
  \<open>(path, scope, content, attributes)\<close>; these are the arguments both sinks hand to
  \<^verbatim>\<open>super().__init__\<close>.
\<close>

record Listener =
  router :: nat
  path :: str
  recursive :: bool
  user_filter :: "(str \<Rightarrow> guild option \<Rightarrow> str \<Rightarrow> attributes \<Rightarrow> bool) option"

record ChannelOutputListener = Listener +
  channel :: channel

text \<open>\<^verbatim>\<open>ChannelOutputListener.__init__(self, router, path, channel, recursive=True, filter=None)\<close>\<close>

definition ChannelOutputListener_init ::
  "nat \<Rightarrow> str \<Rightarrow> channel \<Rightarrow> bool \<Rightarrow>
   (str \<Rightarrow> guild option \<Rightarrow> str \<Rightarrow> attributes \<Rightarrow> bool) option \<Rightarrow> ChannelOutputListener" where
  "ChannelOutputListener_init r p c rec f =
     \<lparr>router = r, path = p, recursive = rec, user_filter = f, channel = c\<rparr>"

text \<open>
  \<^verbatim>\<open>ChannelOutputListener.filter\<close>: \<^verbatim>\<open>guild.channels\<close> is read with no check that the
  guild is there, so an event without a scope raises \<^verbatim>\<open>AttributeError\<close>.
\<close>

definition ChannelOutputListener_filter ::
  "ChannelOutputListener \<Rightarrow> str \<Rightarrow> guild option \<Rightarrow> str \<Rightarrow> attributes \<Rightarrow> error + bool" where
  "ChannelOutputListener_filter self p g content attrs =
     (case g of
        None \<Rightarrow> Inl (AttributeError (lit ''channels''))
      | Some gd \<Rightarrow> if channel self \<notin> set (channels gd) then Inr False else Inr True)"

text \<open>
  The messages sent to channels, oldest first. \<^verbatim>\<open>channel.send(content=...)\<close> appends one;
  the transport behind it is outside the program.
\<close>

type_synonym sent = "(channel \<times> str) list"

definition channel_send :: "channel \<Rightarrow> str \<Rightarrow> sent \<Rightarrow> (error + unit) \<times> sent" where
  "channel_send c content st = (Inr (), st @ [(c, content)])"

text \<open>\<^verbatim>\<open>attributes.get(key, None)\<close>\<close>

definition attributes_get :: "attributes \<Rightarrow> str \<Rightarrow> pyval" where
  "attributes_get attrs k = (case attrs k of None \<Rightarrow> VNone | Some v \<Rightarrow> v)"

text \<open>\<^verbatim>\<open>ChannelOutputListener.handle\<close>; the exception of a failed lookup leaves before the send.\<close>

definition ChannelOutputListener_handle ::
  "ChannelOutputListener \<Rightarrow> str \<Rightarrow> guild option \<Rightarrow> str \<Rightarrow> attributes \<Rightarrow> sent
   \<Rightarrow> (error + unit) \<times> sent" where
  "ChannelOutputListener_handle self p g content attrs st =
     (let icon = attributes_get attrs (lit ''icon'') in
      if icon \<noteq> VNone then
        (case ICONS_getitem icon of
           Inl e \<Rightarrow> (Inl e, st)
         | Inr glyph \<Rightarrow> channel_send (channel self) (glyph @ lit '' '' @ content) st)
      else channel_send (channel self) content st)"

section \<open>The Router's matching and dispatch\<close>

text \<open>
  Modelled from the spec: the Router (\<^verbatim>\<open>journal/router.py\<close>) is not among the sources.
  Its matching rule: listener \<open>L\<close> matches event path \<open>P\<close> iff \<open>L.path == P\<close>, or
  \<open>L.recursive\<close> is true and \<open>P\<close> starts with \<open>L.path\<close> followed by a \<open>/\<close> separator.
\<close>

definition matches :: "str \<Rightarrow> bool \<Rightarrow> str \<Rightarrow> bool" where
  "matches L rec P = (L = P \<or> (rec \<and> prefix (L @ lit ''/'') P))"

text \<open>
  Modelled from the spec: the filtering step of the Router's dispatch, which is not among
  the sources. The sink's own filter is evaluated first; a filter that raises is treated as
  a rejection; the optional user-supplied filter is composed with it.
\<close>

definition accepts ::
  "ChannelOutputListener \<Rightarrow> str \<Rightarrow> guild option \<Rightarrow> str \<Rightarrow> attributes \<Rightarrow> bool" where
  "accepts self p g content attrs =
     (case ChannelOutputListener_filter self p g content attrs of
        Inl e \<Rightarrow> False
      | Inr ok \<Rightarrow>
          ok \<and> (case user_filter self of None \<Rightarrow> True | Some f \<Rightarrow> f p g content attrs))"

text \<open>
  Modelled from the spec: the Router's dispatch of one event to one channel sink whose path
  matched. The handler runs only when the filter accepted; a failure of the handler is
  caught there and goes no further.
\<close>

definition deliver ::
  "ChannelOutputListener \<Rightarrow> str \<Rightarrow> guild option \<Rightarrow> str \<Rightarrow> attributes \<Rightarrow> sent \<Rightarrow> sent" where
  "deliver self p g content attrs st =
     (if accepts self p g content attrs
      then snd (ChannelOutputListener_handle self p g content attrs st)
      else st)"

section \<open>Attachments and their streams\<close>

text \<open>
  A stream is a byte sequence with a read position; the store maps every reference below
  \<open>next_ref\<close> to an allocated stream. Reading a stream returns the bytes from its position
  on and leaves the position at the end, so a second read of the same stream is empty.
\<close>

record stream =
  data :: "nat list"
  pos :: nat

record store =
  streams :: "nat \<Rightarrow> stream"
  next_ref :: nat

definition stream_read :: "nat \<Rightarrow> store \<Rightarrow> nat list \<times> store" where
  "stream_read r h =
     (drop (pos (streams h r)) (data (streams h r)),
      h\<lparr>streams := (streams h)(r := (streams h r)\<lparr>pos := length (data (streams h r))\<rparr>)\<rparr>)"

text \<open>
  Modelled from the spec: \<^verbatim>\<open>futaba.utils.copy_discord_file\<close> is not among the sources.
  The duplication step materializes the source bytes and wraps them in a new, independent
  readable handle, preserving the original file name: the copy is a newly allocated stream
  over the bytes of the source, positioned at its start.
\<close>

definition duplicate :: "discord_file \<Rightarrow> store \<Rightarrow> discord_file \<times> store" where
  "duplicate f h =
     (\<lparr>fp = next_ref h, filename = filename f\<rparr>,
      h\<lparr>streams := (streams h)(next_ref h := \<lparr>data = data (streams h (fp f)), pos = 0\<rparr>),
        next_ref := Suc (next_ref h)\<rparr>)"

text \<open>
  Modelled from the spec: \<^verbatim>\<open>copy_discord_file\<close> as the sink calls it, on the value of an
  attribute. The spec speaks of attachment handles only; a value that is no attachment
  cannot be duplicated and the call fails.
\<close>

fun copy_discord_file :: "pyval \<Rightarrow> store \<Rightarrow> (error + pyval) \<times> store" where
  "copy_discord_file (VFile f) h = (case duplicate f h of (c, h') \<Rightarrow> (Inr (VFile c), h'))"
| "copy_discord_file v h = (Inl TypeError, h)"

text \<open>What a \<^verbatim>\<open>for\<close> loop or \<^verbatim>\<open>map\<close> sees of a value: a string yields its characters.\<close>

fun iterate :: "pyval \<Rightarrow> error + pyval list" where
  "iterate (VList vs) = Inr vs"
| "iterate (VStr cs) = Inr (map (\<lambda>c. VStr [c]) cs)"
| "iterate v = Inl TypeError"

text \<open>\<^verbatim>\<open>list(map(copy_discord_file, vs))\<close>: the copies are made in order, the first failure ends it.\<close>

fun map_copy_discord_file :: "pyval list \<Rightarrow> store \<Rightarrow> (error + pyval list) \<times> store" where
  "map_copy_discord_file [] h = (Inr [], h)"
| "map_copy_discord_file (v # vs) h =
     (case copy_discord_file v h of
        (Inl e, h') \<Rightarrow> (Inl e, h')
      | (Inr c, h') \<Rightarrow>
          (case map_copy_discord_file vs h' of
             (Inl e, h'') \<Rightarrow> (Inl e, h'')
           | (Inr cs, h'') \<Rightarrow> (Inr (c # cs), h'')))"

section \<open>journal/impl/direct\_message.py\<close>

text \<open>The keyword arguments of \<^verbatim>\<open>user.send\<close>; a key that is not passed is \<open>None\<close>.\<close>

record kwargs =
  kw_content :: str
  kw_embed :: "pyval option"
  kw_file :: "pyval option"
  kw_files :: "pyval option"

text \<open>
  The store of streams and the private messages sent to users, oldest first.
  \<^verbatim>\<open>user.send(**kwargs)\<close> is a call into the chat library: the model records its keyword
  arguments and takes the call to return.
\<close>

record dm_world =
  heap :: store
  dm_sent :: "(nat \<times> kwargs) list"

definition user_send :: "nat \<Rightarrow> kwargs \<Rightarrow> dm_world \<Rightarrow> (error + unit) \<times> dm_world" where
  "user_send u kw w = (Inr (), w\<lparr>dm_sent := dm_sent w @ [(u, kw)]\<rparr>)"

record DirectMessageListener = Listener +
  user :: nat

text \<open>
  \<^verbatim>\<open>DirectMessageListener.__init__(self, router, path, user, recursive=True)\<close> hands no
  filter to the base class.
\<close>

definition DirectMessageListener_init ::
  "nat \<Rightarrow> str \<Rightarrow> nat \<Rightarrow> bool \<Rightarrow> DirectMessageListener" where
  "DirectMessageListener_init r p u rec =
     \<lparr>router = r, path = p, recursive = rec, user_filter = None, user = u\<rparr>"

text \<open>Lines 44 and 45 of \<^verbatim>\<open>handle\<close>: the \<^verbatim>\<open>file\<close> key.\<close>

definition copy_file_attribute ::
  "attributes \<Rightarrow> store \<Rightarrow> (error + pyval option) \<times> store" where
  "copy_file_attribute attrs h =
     (case attrs (lit ''file'') of
        None \<Rightarrow> (Inr None, h)
      | Some v \<Rightarrow>
          (case copy_discord_file v h of
             (Inl e, h') \<Rightarrow> (Inl e, h')
           | (Inr c, h') \<Rightarrow> (Inr (Some c), h')))"

text \<open>Lines 46 and 47 of \<^verbatim>\<open>handle\<close>: the \<^verbatim>\<open>files\<close> key.\<close>

definition copy_files_attribute ::
  "attributes \<Rightarrow> store \<Rightarrow> (error + pyval option) \<times> store" where
  "copy_files_attribute attrs h =
     (case attrs (lit ''files'') of
        None \<Rightarrow> (Inr None, h)
      | Some v \<Rightarrow>
          (case iterate v of
             Inl e \<Rightarrow> (Inl e, h)
           | Inr vs \<Rightarrow>
               (case map_copy_discord_file vs h of
                  (Inl e, h') \<Rightarrow> (Inl e, h')
                | (Inr cs, h') \<Rightarrow> (Inr (Some (VList cs)), h'))))"

text \<open>\<^verbatim>\<open>DirectMessageListener.handle\<close>\<close>

definition DirectMessageListener_handle ::
  "DirectMessageListener \<Rightarrow> str \<Rightarrow> guild option \<Rightarrow> str \<Rightarrow> attributes \<Rightarrow> dm_world
   \<Rightarrow> (error + unit) \<times> dm_world" where
  "DirectMessageListener_handle self p g content attrs w =
     (let content' =
            (case g of
               None \<Rightarrow> content
             | Some gd \<Rightarrow> lit ''['' @ name gd @ lit ''] '' @ content)
      in
        case copy_file_attribute attrs (heap w) of
          (Inl e, h1) \<Rightarrow> (Inl e, w\<lparr>heap := h1\<rparr>)
        | (Inr file', h1) \<Rightarrow>
            (case copy_files_attribute attrs h1 of
               (Inl e, h2) \<Rightarrow> (Inl e, w\<lparr>heap := h2\<rparr>)
             | (Inr files', h2) \<Rightarrow>
                 user_send (user self)
                   \<lparr>kw_content = content', kw_embed = attrs (lit ''embed''),
                    kw_file = file', kw_files = files'\<rparr>
                   (w\<lparr>heap := h2\<rparr>)))"

text \<open>
  What the spec's data model asks of an event's attachments: \<^verbatim>\<open>file\<close>, when present, is
  an attachment, and \<^verbatim>\<open>files\<close>, when present, is a list of attachments; each refers to a
  stream of the store.
\<close>

fun allocated :: "store \<Rightarrow> pyval \<Rightarrow> bool" where
  "allocated h (VFile f) = (fp f < next_ref h)"
| "allocated h v = False"

definition attachments_ok :: "store \<Rightarrow> attributes \<Rightarrow> bool" where
  "attachments_ok h attrs =
     ((case attrs (lit ''file'') of None \<Rightarrow> True | Some v \<Rightarrow> allocated h v)
      \<and> (case attrs (lit ''files'') of
            None \<Rightarrow> True
          | Some (VList vs) \<Rightarrow> list_all (allocated h) vs
          | Some v \<Rightarrow> False))"

text \<open>
  \<open>c\<close> in the store \<open>h'\<close> is an independent, fully readable copy of \<open>f\<close> in the store \<open>h\<close>:
  it has the file name of \<open>f\<close>, its stream did not exist in \<open>h\<close>, and that stream holds the
  bytes of \<open>f\<close> and is positioned at their start, so that reading it yields them all.
\<close>

definition copy_of :: "store \<Rightarrow> store \<Rightarrow> discord_file \<Rightarrow> discord_file \<Rightarrow> bool" where
  "copy_of h h' f c =
     (filename c = filename f \<and> next_ref h \<le> fp c \<and> fp c < next_ref h'
      \<and> streams h' (fp c) = \<lparr>data = data (streams h (fp f)), pos = 0\<rparr>
      \<and> fst (stream_read (fp c) h') = data (streams h (fp f)))"

section \<open>cogs/info/alias.py\<close>

text \<open>
  \<^verbatim>\<open>EXTENSION_REGEX = re.compile(r'\.([a-z]+)\?.+$')\<close>, applied with \<^verbatim>\<open>match\<close>, which
  anchors the pattern at the start of the string. The function returns group 1 of the match:
  the string must begin with a dot, then comes the longest run of letters \<open>a\<close> to \<open>z\<close>, which
  must not be empty (the character after it has to be \<open>?\<close>, which is no such letter, so no
  shorter run can match), then \<open>?\<close>, then at least one character other than a newline up to
  the end of the string, or up to a newline that ends the string.
\<close>

definition lower :: "nat \<Rightarrow> bool" where
  "lower c = (0x61 \<le> c \<and> c \<le> 0x7A)"

definition EXTENSION_REGEX_match :: "str \<Rightarrow> str option" where
  "EXTENSION_REGEX_match url =
     (case url of
        [] \<Rightarrow> None
      | c # r \<Rightarrow>
          if c \<noteq> 0x2E then None
          else
            (let ext = takeWhile lower r; r2 = dropWhile lower r in
             if ext = [] then None
             else
               (case r2 of
                  [] \<Rightarrow> None
                | q # t \<Rightarrow>
                    if q \<noteq> 0x3F then None
                    else
                      (let body = (if t \<noteq> [] \<and> last t = 0x0A then butlast t else t) in
                       if body \<noteq> [] \<and> 0x0A \<notin> set body then Some ext else None))))"

text \<open>\<^verbatim>\<open>MemberChanges.__init__\<close> and \<^verbatim>\<open>MemberChanges.__bool__\<close>\<close>

definition MemberChanges_init :: MemberChanges where
  "MemberChanges_init = \<lparr>avatar_url = None, username = None, nickname = None\<rparr>"

definition MemberChanges_bool :: "MemberChanges \<Rightarrow> bool" where
  "MemberChanges_bool changes =
     (avatar_url changes \<noteq> None \<or> username changes \<noteq> None \<or> nickname changes \<noteq> None)"

text \<open>
  What the cog uses and the sources do not hold, taken as parameters:
  \<^verbatim>\<open>futaba.download.download_link\<close>, which may fail;
  \<^verbatim>\<open>futaba.utils.user_discrim\<close>; \<^verbatim>\<open>bot.find_user\<close>; and the text of a
  \<^verbatim>\<open>StringBuilder\<close>, after \<^verbatim>\<open>write\<close> calls with a separator and after \<^verbatim>\<open>writeln\<close> calls.
\<close>

record externals =
  download_link :: "str \<Rightarrow> error + nat list"
  user_discrim :: "member \<Rightarrow> str"
  find_user :: "str \<Rightarrow> guild \<Rightarrow> member option"
  written :: "str \<Rightarrow> str list \<Rightarrow> str"
  written_lines :: "str list \<Rightarrow> str"

text \<open>
  The effects of the cog: the calls made on \<^verbatim>\<open>bot.sql.alias\<close>, the events handed to the
  broadcaster \<^verbatim>\<open>self.journal\<close>, and the replies in the command's channel.
\<close>

datatype sql_call =
    add_avatar member nat "nat list" str
  | add_username member nat str
  | add_nickname member nat str
  | add_possible_alt guild member member
  | all_delete_possible_alts guild member

record journal_event =
  ev_path :: str
  ev_guild :: "guild option"
  ev_content :: str
  ev_attributes :: attributes

datatype reply = Embed_description str | Reaction_FAIL | Reaction_SUCCESS

record alias_world =
  sql :: "sql_call list"
  journal :: "journal_event list"
  replies :: "reply list"

text \<open>\<^verbatim>\<open>self.journal.send(path, guild, content, **attributes)\<close>\<close>

definition journal_send ::
  "str \<Rightarrow> guild option \<Rightarrow> str \<Rightarrow> attributes \<Rightarrow> alias_world \<Rightarrow> alias_world" where
  "journal_send p g content attrs w =
     w\<lparr>journal := journal w @
         [\<lparr>ev_path = p, ev_guild = g, ev_content = content, ev_attributes = attrs\<rparr>]\<rparr>"

text \<open>Lines 76 to 92 of \<^verbatim>\<open>member_update\<close>: what has changed.\<close>

definition member_changes :: "member \<Rightarrow> member \<Rightarrow> MemberChanges" where
  "member_changes before after =
     (let changes = MemberChanges_init;
          changes = (if avatar before \<noteq> avatar after
                     then changes\<lparr>avatar_url := Some (member_avatar_url after)\<rparr> else changes);
          changes = (if member_name before \<noteq> member_name after
                     then changes\<lparr>username := Some (member_name after)\<rparr> else changes);
          changes = (if nick before \<noteq> nick after \<and> nick after \<noteq> None
                     then changes\<lparr>nickname := nick after\<rparr> else changes)
      in changes)"

text \<open>Lines 98 to 103: the avatar is downloaded, then its extension is read off the URL.\<close>

definition avatar_and_ext ::
  "externals \<Rightarrow> MemberChanges \<Rightarrow> error + (nat list \<times> str) option" where
  "avatar_and_ext ext changes =
     (case avatar_url changes of
        None \<Rightarrow> Inr None
      | Some url \<Rightarrow>
          (case download_link ext url of
             Inl e \<Rightarrow> Inl e
           | Inr bytes \<Rightarrow>
               (case EXTENSION_REGEX_match url of
                  None \<Rightarrow>
                    Inl (ValueError (lit ''Avatar URL does not match extension regex: '' @ url))
                | Some avatar_ext \<Rightarrow> Inr (Some (bytes, avatar_ext)))))"

text \<open>Lines 105 to 115: the rows written in the transaction and the chunks of \<^verbatim>\<open>attrs\<close>.\<close>

definition transaction_rows ::
  "member \<Rightarrow> nat \<Rightarrow> MemberChanges \<Rightarrow> (nat list \<times> str) option \<Rightarrow> sql_call list \<times> str list" where
  "transaction_rows before timestamp changes av =
     (let (rows, chunks) = ([], []);
          (rows, chunks) =
            (case (avatar_url changes, av) of
               (Some url, Some (bytes, avatar_ext)) \<Rightarrow>
                 (rows @ [add_avatar before timestamp bytes avatar_ext],
                  chunks @ [lit ''avatar: '' @ url])
             | _ \<Rightarrow> (rows, chunks));
          (rows, chunks) =
            (case username changes of
               Some n \<Rightarrow>
                 (rows @ [add_username before timestamp n], chunks @ [lit ''name: '' @ n])
             | None \<Rightarrow> (rows, chunks));
          (rows, chunks) =
            (case nickname changes of
               Some n \<Rightarrow>
                 (rows @ [add_nickname before timestamp n], chunks @ [lit ''nick: '' @ n])
             | None \<Rightarrow> (rows, chunks))
      in (rows, chunks))"

text \<open>The attributes of the event that \<^verbatim>\<open>member_update\<close> sends (lines 118 and 119).\<close>

definition member_update_attributes :: "member \<Rightarrow> member \<Rightarrow> MemberChanges \<Rightarrow> attributes" where
  "member_update_attributes before after changes =
     [lit ''icon'' \<mapsto> VStr (lit ''person''),
      lit ''before'' \<mapsto> VMember before,
      lit ''after'' \<mapsto> VMember after,
      lit ''changes'' \<mapsto> VChanges changes]"

text \<open>\<^verbatim>\<open>Alias.member_update\<close>; \<open>timestamp\<close> is the value of \<^verbatim>\<open>datetime.now()\<close>.\<close>

definition member_update ::
  "externals \<Rightarrow> nat \<Rightarrow> member \<Rightarrow> member \<Rightarrow> alias_world \<Rightarrow> (error + unit) \<times> alias_world" where
  "member_update ext timestamp before after w =
     (let changes = member_changes before after in
      if \<not> MemberChanges_bool changes then (Inr (), w)
      else
        (case avatar_and_ext ext changes of
           Inl e \<Rightarrow> (Inl e, w)
         | Inr av \<Rightarrow>
             (let (rows, chunks) = transaction_rows before timestamp changes av;
                  w = w\<lparr>sql := sql w @ rows\<rparr>;
                  content = lit ''Member '' @ user_discrim ext before @ lit '' was updated: ''
                              @ written ext (lit '', '') chunks
              in (Inr (),
                  journal_send (lit ''member/update'') (Some (member_guild before)) content
                    (member_update_attributes before after changes) w))))"

text \<open>
  The commands \<^verbatim>\<open>alts add\<close> and \<^verbatim>\<open>alts delchain\<close>, run in the guild \<open>ctx_guild\<close> by a
  moderator (the decorators have let the call through). The code point \<open>0x27\<close> is the
  apostrophe.
\<close>

definition no_user_information :: "str \<Rightarrow> str" where
  "no_user_information n = lit ''No user information found for `'' @ n @ lit ''`''"

text \<open>The attributes of the event that \<^verbatim>\<open>add_alt\<close> sends (line 235).\<close>

definition add_alt_attributes :: "member \<Rightarrow> member \<Rightarrow> attributes" where
  "add_alt_attributes first_user second_user =
     [lit ''icon'' \<mapsto> VStr (lit ''item_add''),
      lit ''users'' \<mapsto> VList [VMember first_user, VMember second_user]]"

definition add_alt :: "externals \<Rightarrow> guild \<Rightarrow> str \<Rightarrow> str \<Rightarrow> alias_world \<Rightarrow> alias_world" where
  "add_alt ext ctx_guild first_name second_name w =
     (case (find_user ext first_name ctx_guild, find_user ext second_name ctx_guild) of
        (Some first_user, Some second_user) \<Rightarrow>
          (let w = w\<lparr>sql := sql w @ [add_possible_alt ctx_guild first_user second_user]\<rparr>;
               content = lit ''Added '' @ mention first_user @ lit '' and '' @ mention second_user
                           @ lit '' as possible alt accounts.'';
               w = journal_send (lit ''alt/add'') (Some ctx_guild) content
                     (add_alt_attributes first_user second_user) w
           in w\<lparr>replies := replies w @ [Reaction_SUCCESS]\<rparr>)
      | (first_user, second_user) \<Rightarrow>
          (let content = (if first_user = None then [no_user_information first_name] else [])
                           @ (if second_user = None then [no_user_information second_name] else [])
           in w\<lparr>replies := replies w
                   @ [Embed_description (written_lines ext content), Reaction_FAIL]\<rparr>))"

text \<open>The attributes of the event that \<^verbatim>\<open>del_alt_chain\<close> sends (line 258).\<close>

definition del_alt_chain_attributes :: "member \<Rightarrow> attributes" where
  "del_alt_chain_attributes u =
     [lit ''icon'' \<mapsto> VStr (lit ''item_clear''), lit ''user'' \<mapsto> VMember u]"

definition del_alt_chain :: "externals \<Rightarrow> guild \<Rightarrow> str \<Rightarrow> alias_world \<Rightarrow> alias_world" where
  "del_alt_chain ext ctx_guild n w =
     (case find_user ext n ctx_guild of
        None \<Rightarrow>
          w\<lparr>replies := replies w @ [Embed_description (no_user_information n), Reaction_FAIL]\<rparr>
      | Some u \<Rightarrow>
          (let w = w\<lparr>sql := sql w @ [all_delete_possible_alts ctx_guild u]\<rparr>;
               content = lit ''Removed all alt accounts in '' @ mention u @ [0x27] @ lit ''s chain'';
               w = journal_send (lit ''alt/clear'') (Some ctx_guild) content
                     (del_alt_chain_attributes u) w
           in w\<lparr>replies := replies w @ [Reaction_SUCCESS]\<rparr>))"

section \<open>Properties of the channel sink\<close>

lemma lit_Nil: "lit [] = []"
  by (simp add: lit_def)

lemma lit_Cons: "lit (c # cs) = of_char c # lit cs"
  by (simp add: lit_def)

text \<open>
  Claim C1. For every event delivered to a ChannelOutputListener bound to channel \<open>C\<close>, the
  listener's filter accepts the event if and only if \<open>C\<close> is a member of the event scope's
  list of channels; when the filter does not accept, the dispatch sends no message: the
  messages sent are what they were.
\<close>

theorem channel_filter_scope_membership:
  "(ChannelOutputListener_filter self p g content attrs = Inr True
      \<longleftrightarrow> (\<exists>gd. g = Some gd \<and> channel self \<in> set (channels gd)))
   \<and> (ChannelOutputListener_filter self p g content attrs \<noteq> Inr True
      \<longrightarrow> deliver self p g content attrs st = st)"
  by (auto simp: ChannelOutputListener_filter_def deliver_def accepts_def
           split: option.splits sum.splits)

theorem channel_filter_scope_membership_witness:
  "deliver (ChannelOutputListener_init 0 (lit ''/alias'') 7 True None)
     (lit ''/alias/member_update'') (Some \<lparr>name = lit ''H'', channels = [1, 2]\<rparr>)
     (lit ''hello'') Map.empty [(7, lit ''earlier'')]
   = [(7, lit ''earlier'')]"
  using channel_filter_scope_membership
    [of "ChannelOutputListener_init 0 (lit ''/alias'') 7 True None"
        "lit ''/alias/member_update''" "Some \<lparr>name = lit ''H'', channels = [1, 2]\<rparr>"
        "lit ''hello''" Map.empty "[(7, lit ''earlier'')]"]
  by (simp add: ChannelOutputListener_filter_def ChannelOutputListener_init_def)

text \<open>
  Claim C2. For every event whose attributes hold under \<open>icon\<close> a name that is a key of
  \<open>ICONS\<close>, the handler sends to the destination channel exactly the glyph of that name,
  one space, and the content; the name \<open>person\<close> gives the glyph U+1F464. For every event
  without the key \<open>icon\<close> the content is sent unchanged.
\<close>

theorem channel_handle_icon_prefix:
  "(attrs (lit ''icon'') = Some (VStr nm) \<and> map_of ICONS nm = Some glyph \<longrightarrow>
      ChannelOutputListener_handle self p g content attrs st
        = (Inr (), st @ [(channel self, glyph @ lit '' '' @ content)]))
   \<and> (attrs (lit ''icon'') = Some (VStr (lit ''person'')) \<longrightarrow>
      ChannelOutputListener_handle self p g content attrs st
        = (Inr (), st @ [(channel self, [0x1F464, 0x20] @ content)]))
   \<and> (attrs (lit ''icon'') = None \<longrightarrow>
      ChannelOutputListener_handle self p g content attrs st
        = (Inr (), st @ [(channel self, content)]))"
  by (simp add: ChannelOutputListener_handle_def attributes_get_def channel_send_def
        ICONS_def lit_Nil lit_Cons)

theorem channel_handle_icon_prefix_witness:
  "ChannelOutputListener_handle (ChannelOutputListener_init 0 (lit ''/alias'') 7 True None)
     (lit ''/alias/member_update'') (Some \<lparr>name = lit ''G'', channels = [7]\<rparr>)
     (lit ''hello'') [lit ''icon'' \<mapsto> VStr (lit ''person'')] []
     = (Inr (), [(7, [0x1F464, 0x20] @ lit ''hello'')])
   \<and> ChannelOutputListener_handle (ChannelOutputListener_init 0 (lit ''/alias'') 7 True None)
     (lit ''/alias/member_update'') (Some \<lparr>name = lit ''G'', channels = [7]\<rparr>)
     (lit ''hello'') [lit ''icon'' \<mapsto> VStr (lit ''ban'')] []
     = (Inr (), [(7, [0x1F528, 0x20] @ lit ''hello'')])
   \<and> ChannelOutputListener_handle (ChannelOutputListener_init 0 (lit ''/alias'') 7 True None)
     (lit ''/alias/member_update'') (Some \<lparr>name = lit ''G'', channels = [7]\<rparr>)
     (lit ''hello'') Map.empty []
     = (Inr (), [(7, lit ''hello'')])"
  using
    channel_handle_icon_prefix
      [of "[lit ''icon'' \<mapsto> VStr (lit ''person'')]" "lit ''person''" "[0x1F464]"
          "ChannelOutputListener_init 0 (lit ''/alias'') 7 True None"
          "lit ''/alias/member_update''" "Some \<lparr>name = lit ''G'', channels = [7]\<rparr>"
          "lit ''hello''" "[]"]
    channel_handle_icon_prefix
      [of "[lit ''icon'' \<mapsto> VStr (lit ''ban'')]" "lit ''ban''" "[0x1F528]"
          "ChannelOutputListener_init 0 (lit ''/alias'') 7 True None"
          "lit ''/alias/member_update''" "Some \<lparr>name = lit ''G'', channels = [7]\<rparr>"
          "lit ''hello''" "[]"]
    channel_handle_icon_prefix
      [of Map.empty "[]" "[]"
          "ChannelOutputListener_init 0 (lit ''/alias'') 7 True None"
          "lit ''/alias/member_update''" "Some \<lparr>name = lit ''G'', channels = [7]\<rparr>"
          "lit ''hello''" "[]"]
  by (simp add: ChannelOutputListener_init_def ICONS_def lit_Nil lit_Cons)

text \<open>
  Claim C3. For every event whose attributes hold under \<open>icon\<close> a name that is not a key of
  \<open>ICONS\<close>, the handler raises the error of the failed lookup (a \<^verbatim>\<open>KeyError\<close> carrying the
  name) and sends nothing: the messages sent are what they were.
\<close>

theorem channel_handle_unknown_icon:
  "attrs (lit ''icon'') = Some (VStr nm) \<Longrightarrow> map_of ICONS nm = None \<Longrightarrow>
     ChannelOutputListener_handle self p g content attrs st = (Inl (KeyError (VStr nm)), st)"
  by (simp add: ChannelOutputListener_handle_def attributes_get_def)

theorem channel_handle_unknown_icon_witness:
  "ChannelOutputListener_handle (ChannelOutputListener_init 0 (lit ''/alias'') 7 True None)
     (lit ''/alias/member_update'') (Some \<lparr>name = lit ''G'', channels = [7]\<rparr>)
     (lit ''hello'') [lit ''icon'' \<mapsto> VStr (lit ''not-a-real-icon'')] [(7, lit ''earlier'')]
   = (Inl (KeyError (VStr (lit ''not-a-real-icon''))), [(7, lit ''earlier'')])"
  using channel_handle_unknown_icon
    [of "[lit ''icon'' \<mapsto> VStr (lit ''not-a-real-icon'')]" "lit ''not-a-real-icon''"
        "ChannelOutputListener_init 0 (lit ''/alias'') 7 True None"
        "lit ''/alias/member_update''" "Some \<lparr>name = lit ''G'', channels = [7]\<rparr>"
        "lit ''hello''" "[(7, lit ''earlier'')]"]
  by (simp add: ICONS_def lit_Nil lit_Cons)

text \<open>
  Claim C8. When a ChannelOutputListener is constructed with a user-supplied filter \<open>f\<close>, an
  event passes the listener's filtering step if and only if the scope-membership filter
  accepts it and \<open>f\<close> accepts it.
\<close>

theorem channel_user_filter_composed:
  "accepts (ChannelOutputListener_init r pth c rec (Some f)) p g content attrs
     \<longleftrightarrow> ChannelOutputListener_filter (ChannelOutputListener_init r pth c rec (Some f))
           p g content attrs = Inr True
         \<and> f p g content attrs"
  by (auto simp: accepts_def ChannelOutputListener_init_def split: sum.splits)

text \<open>
  Claim C9. For every event whose scope is absent, the filter of the channel sink does not
  return \<open>False\<close>: it raises, because it reads the \<open>channels\<close> attribute of the scope with no
  check that the scope is there.
\<close>

theorem channel_filter_scopeless_raises:
  "ChannelOutputListener_filter self p None content attrs = Inl (AttributeError (lit ''channels''))
   \<and> ChannelOutputListener_filter self p None content attrs \<noteq> Inr False"
  by (simp add: ChannelOutputListener_filter_def)

section \<open>Properties of the matching rule\<close>

text \<open>
  Claim C7. For all topic paths \<open>P\<close> and registration paths \<open>L\<close>: a recursive listener matches
  \<open>P\<close> if and only if \<open>P\<close> equals \<open>L\<close> or \<open>P\<close> starts with \<open>L\<close> immediately followed by the
  separator \<open>/\<close>; a non-recursive listener matches \<open>P\<close> if and only if \<open>P\<close> equals \<open>L\<close>; so a
  registration at \<open>/al\<close> never matches the path \<open>/alias\<close>.
\<close>

theorem listener_path_matching:
  "(matches L True P \<longleftrightarrow> P = L \<or> (\<exists>rest. P = L @ lit ''/'' @ rest))
   \<and> (matches L False P \<longleftrightarrow> P = L)
   \<and> \<not> matches (lit ''/al'') rec (lit ''/alias'')"
  by (auto simp: matches_def prefix_def lit_Nil lit_Cons)

section \<open>Properties of the direct-message sink\<close>

lemma copy_of_iff:
  "copy_of h h' f c \<longleftrightarrow>
     filename c = filename f \<and> next_ref h \<le> fp c \<and> fp c < next_ref h'
     \<and> streams h' (fp c) = \<lparr>data = data (streams h (fp f)), pos = 0\<rparr>"
  by (auto simp: copy_of_def stream_read_def)

lemma stream_read_other:
  "r \<noteq> r' \<Longrightarrow> streams (snd (stream_read r h)) r' = streams h r'"
  by (simp add: stream_read_def)

lemma map_copy_files:
  "list_all (\<lambda>f. fp f < next_ref h) fs \<Longrightarrow>
   \<exists>cs h'. map_copy_discord_file (map VFile fs) h = (Inr (map VFile cs), h')
     \<and> next_ref h' = next_ref h + length fs
     \<and> (\<forall>r < next_ref h. streams h' r = streams h r)
     \<and> list_all2 (copy_of h h') fs cs
     \<and> distinct (map fp cs)"
proof (induction fs arbitrary: h)
  case Nil
  then show ?case by simp
next
  case (Cons f fs)
  define c where "c = \<lparr>fp = next_ref h, filename = filename f\<rparr>"
  define h1 where "h1 = h\<lparr>streams := (streams h)(next_ref h := \<lparr>data = data (streams h (fp f)), pos = 0\<rparr>),
        next_ref := Suc (next_ref h)\<rparr>"
  have dup: "duplicate f h = (c, h1)" by (simp add: duplicate_def c_def h1_def)
  have f_alloc: "fp f < next_ref h" and fs_alloc: "list_all (\<lambda>f. fp f < next_ref h) fs"
    using Cons.prems by simp_all
  have "list_all (\<lambda>f. fp f < next_ref h1) fs"
    using fs_alloc by (simp add: h1_def list_all_iff) (metis less_Suc_eq)
  from Cons.IH[OF this] obtain cs h' where
    run: "map_copy_discord_file (map VFile fs) h1 = (Inr (map VFile cs), h')"
    and nr: "next_ref h' = next_ref h1 + length fs"
    and old: "\<forall>r < next_ref h1. streams h' r = streams h1 r"
    and cp: "list_all2 (copy_of h1 h') fs cs"
    and dist: "distinct (map fp cs)"
    by blast
  have nr1: "next_ref h1 = Suc (next_ref h)" by (simp add: h1_def)
  have s1: "\<And>r. r < next_ref h \<Longrightarrow> streams h1 r = streams h r" by (simp add: h1_def)
  have 1: "map_copy_discord_file (map VFile (f # fs)) h = (Inr (map VFile (c # cs)), h')"
    using dup run by simp
  have 2: "next_ref h' = next_ref h + length (f # fs)" using nr nr1 by simp
  have 3: "\<forall>r < next_ref h. streams h' r = streams h r"
    using old s1 nr1 by simp
  have c_ok: "copy_of h h' f c"
    using old nr nr1 by (simp add: copy_of_iff c_def h1_def)
  have rest: "list_all2 (copy_of h h') fs cs"
    using cp fs_alloc nr1 by (auto simp: list_all2_conv_all_nth list_all_length copy_of_iff s1)
  have fresh: "\<forall>c' \<in> set cs. next_ref h1 \<le> fp c'"
    using cp by (auto simp: list_all2_conv_all_nth in_set_conv_nth copy_of_iff)
  have 5: "distinct (map fp (c # cs))"
    using dist fresh nr1 by (auto simp: c_def)
  show ?case using 1 2 3 c_ok rest 5 by (intro exI[of _ "c # cs"] exI[of _ h']) simp
qed

lemma allocated_files:
  "list_all (allocated h) vs \<Longrightarrow> \<exists>fs. vs = map VFile fs \<and> list_all (\<lambda>f. fp f < next_ref h) fs"
proof (induction vs)
  case Nil
  then show ?case by simp
next
  case (Cons v vs)
  then obtain fs where fs: "vs = map VFile fs" "list_all (\<lambda>f. fp f < next_ref h) fs"
    by auto
  from Cons.prems obtain f where "v = VFile f" "fp f < next_ref h"
    by (cases v) simp_all
  with fs show ?case
    by (intro exI[of _ "f # fs"]) simp
qed

lemma copy_file_attribute_ok:
  assumes "case attrs (lit ''file'') of None \<Rightarrow> True | Some v \<Rightarrow> allocated h v"
  shows "\<exists>r h1. copy_file_attribute attrs h = (Inr r, h1)
     \<and> next_ref h \<le> next_ref h1
     \<and> (\<forall>x < next_ref h. streams h1 x = streams h x)
     \<and> (attrs (lit ''file'') = None \<longrightarrow> r = None)
     \<and> (\<forall>f. attrs (lit ''file'') = Some (VFile f)
           \<longrightarrow> (\<exists>c. r = Some (VFile c) \<and> copy_of h h1 f c))
     \<and> (\<forall>c. r = Some (VFile c) \<longrightarrow> fp c < next_ref h1)"
proof (cases "attrs (lit ''file'')")
  case None
  then show ?thesis by (simp add: copy_file_attribute_def)
next
  case (Some v)
  with assms obtain f where v: "v = VFile f" and "fp f < next_ref h"
    by (cases v) simp_all
  show ?thesis
    using Some v by (simp add: copy_file_attribute_def duplicate_def copy_of_iff)
qed

lemma copy_files_attribute_ok:
  assumes "case attrs (lit ''files'') of
             None \<Rightarrow> True
           | Some (VList vs) \<Rightarrow> list_all (allocated h) vs
           | Some v \<Rightarrow> False"
  shows "\<exists>r h1. copy_files_attribute attrs h = (Inr r, h1)
     \<and> next_ref h \<le> next_ref h1
     \<and> (\<forall>x < next_ref h. streams h1 x = streams h x)
     \<and> (attrs (lit ''files'') = None \<longrightarrow> r = None)
     \<and> (\<forall>fs. attrs (lit ''files'') = Some (VList (map VFile fs))
           \<longrightarrow> (\<exists>cs. r = Some (VList (map VFile cs))
                 \<and> list_all2 (copy_of h h1) fs cs \<and> distinct (map fp cs)))"
proof (cases "attrs (lit ''files'')")
  case None
  then show ?thesis by (simp add: copy_files_attribute_def)
next
  case (Some v)
  with assms obtain vs where v: "v = VList vs" and "list_all (allocated h) vs"
    by (cases v) simp_all
  then obtain fs where fs: "vs = map VFile fs" "list_all (\<lambda>f. fp f < next_ref h) fs"
    using allocated_files by blast
  from map_copy_files[OF fs(2)] obtain cs h1 where
    run: "map_copy_discord_file (map VFile fs) h = (Inr (map VFile cs), h1)"
    and nr: "next_ref h1 = next_ref h + length fs"
    and old: "\<forall>r < next_ref h. streams h1 r = streams h r"
    and cp: "list_all2 (copy_of h h1) fs cs"
    and dist: "distinct (map fp cs)"
    by blast
  have inj: "\<And>fs'. map VFile fs' = map VFile fs \<Longrightarrow> fs' = fs"
    by (rule map_injective[of VFile]) (simp_all add: inj_on_def)
  have "copy_files_attribute attrs h = (Inr (Some (VList (map VFile cs))), h1)"
    using Some v fs(1) run by (simp add: copy_files_attribute_def)
  then show ?thesis
    using nr old cp dist Some v fs(1) inj by auto
qed

lemma copy_of_rebase:
  "copy_of h1 h2 f c \<Longrightarrow> fp f < next_ref h \<Longrightarrow> next_ref h \<le> next_ref h1 \<Longrightarrow>
   \<forall>x < next_ref h. streams h1 x = streams h x \<Longrightarrow> copy_of h h2 f c"
  by (simp add: copy_of_iff)

lemma copy_of_extend:
  "copy_of h h1 f c \<Longrightarrow> next_ref h1 \<le> next_ref h2 \<Longrightarrow>
   \<forall>x < next_ref h1. streams h2 x = streams h1 x \<Longrightarrow> copy_of h h2 f c"
  by (simp add: copy_of_iff)

lemma allocated_mono: "allocated h v \<Longrightarrow> next_ref h \<le> next_ref h1 \<Longrightarrow> allocated h1 v"
  by (cases v) simp_all

lemma DirectMessageListener_handle_ok:
  assumes ok: "attachments_ok (heap w) attrs"
  shows "\<exists>file' files' h'.
     DirectMessageListener_handle self p g content attrs w
       = (Inr (),
          w\<lparr>heap := h',
            dm_sent := dm_sent w @
              [(user self,
                \<lparr>kw_content = (case g of None \<Rightarrow> content
                                | Some gd \<Rightarrow> lit ''['' @ name gd @ lit ''] '' @ content),
                 kw_embed = attrs (lit ''embed''), kw_file = file', kw_files = files'\<rparr>)]\<rparr>)
     \<and> (\<forall>x < next_ref (heap w). streams h' x = streams (heap w) x)
     \<and> (attrs (lit ''file'') = None \<longrightarrow> file' = None)
     \<and> (\<forall>f. attrs (lit ''file'') = Some (VFile f)
           \<longrightarrow> (\<exists>c. file' = Some (VFile c) \<and> copy_of (heap w) h' f c))
     \<and> (attrs (lit ''files'') = None \<longrightarrow> files' = None)
     \<and> (\<forall>fs. attrs (lit ''files'') = Some (VList (map VFile fs))
           \<longrightarrow> (\<exists>cs. files' = Some (VList (map VFile cs))
                 \<and> list_all2 (copy_of (heap w) h') fs cs \<and> distinct (map fp cs)
                 \<and> (\<forall>c. file' = Some (VFile c) \<longrightarrow> fp c \<notin> set (map fp cs))))"
proof -
  let ?h = "heap w"
  from ok have a1: "case attrs (lit ''file'') of None \<Rightarrow> True | Some v \<Rightarrow> allocated ?h v"
    and a2: "case attrs (lit ''files'') of None \<Rightarrow> True
             | Some (VList vs) \<Rightarrow> list_all (allocated ?h) vs | Some v \<Rightarrow> False"
    by (simp_all add: attachments_ok_def)
  from copy_file_attribute_ok[where attrs=attrs and h="?h", OF a1] obtain r1 h1 where
    run1: "copy_file_attribute attrs ?h = (Inr r1, h1)"
    and nr1: "next_ref ?h \<le> next_ref h1"
    and old1: "\<forall>x < next_ref ?h. streams h1 x = streams ?h x"
    and none1: "attrs (lit ''file'') = None \<longrightarrow> r1 = None"
    and file1: "\<forall>f. attrs (lit ''file'') = Some (VFile f)
                  \<longrightarrow> (\<exists>c. r1 = Some (VFile c) \<and> copy_of ?h h1 f c)"
    and lt1: "\<forall>c. r1 = Some (VFile c) \<longrightarrow> fp c < next_ref h1"
    by (elim exE conjE) (rule that)
  have a2': "case attrs (lit ''files'') of None \<Rightarrow> True
             | Some (VList vs) \<Rightarrow> list_all (allocated h1) vs | Some v \<Rightarrow> False"
    using a2 nr1 by (auto split: option.splits pyval.splits simp: list_all_iff intro: allocated_mono)
  from copy_files_attribute_ok[where attrs=attrs and h=h1, OF a2'] obtain r2 h2 where
    run2: "copy_files_attribute attrs h1 = (Inr r2, h2)"
    and nr2: "next_ref h1 \<le> next_ref h2"
    and old2: "\<forall>x < next_ref h1. streams h2 x = streams h1 x"
    and none2: "attrs (lit ''files'') = None \<longrightarrow> r2 = None"
    and files2: "\<forall>fs. attrs (lit ''files'') = Some (VList (map VFile fs))
                  \<longrightarrow> (\<exists>cs. r2 = Some (VList (map VFile cs))
                        \<and> list_all2 (copy_of h1 h2) fs cs \<and> distinct (map fp cs))"
    by (elim exE conjE) (rule that)
  have run: "DirectMessageListener_handle self p g content attrs w
       = (Inr (),
          w\<lparr>heap := h2,
            dm_sent := dm_sent w @
              [(user self,
                \<lparr>kw_content = (case g of None \<Rightarrow> content
                                | Some gd \<Rightarrow> lit ''['' @ name gd @ lit ''] '' @ content),
                 kw_embed = attrs (lit ''embed''), kw_file = r1, kw_files = r2\<rparr>)]\<rparr>)"
    using run1 run2 by (simp add: DirectMessageListener_handle_def user_send_def)
  have old: "\<forall>x < next_ref ?h. streams h2 x = streams ?h x"
    using old1 old2 nr1 by auto
  have file2: "\<forall>f. attrs (lit ''file'') = Some (VFile f)
                  \<longrightarrow> (\<exists>c. r1 = Some (VFile c) \<and> copy_of ?h h2 f c)"
    using file1 nr2 old2 by (blast intro: copy_of_extend)
  have files3: "\<forall>fs. attrs (lit ''files'') = Some (VList (map VFile fs))
           \<longrightarrow> (\<exists>cs. r2 = Some (VList (map VFile cs))
                 \<and> list_all2 (copy_of ?h h2) fs cs \<and> distinct (map fp cs)
                 \<and> (\<forall>c. r1 = Some (VFile c) \<longrightarrow> fp c \<notin> set (map fp cs)))"
  proof (intro allI impI)
    fix fs assume at: "attrs (lit ''files'') = Some (VList (map VFile fs))"
    with files2 obtain cs where cs: "r2 = Some (VList (map VFile cs))"
      "list_all2 (copy_of h1 h2) fs cs" "distinct (map fp cs)"
      by blast
    have alloc: "\<forall>f \<in> set fs. fp f < next_ref ?h"
      using a2 at by (simp add: list_all_iff)
    have 1: "list_all2 (copy_of ?h h2) fs cs"
      unfolding list_all2_conv_all_nth
    proof (intro conjI allI impI)
      show "length fs = length cs"
        using cs(2) by (rule list_all2_lengthD)
    next
      fix i assume i: "i < length fs"
      with cs(2) have "copy_of h1 h2 (fs ! i) (cs ! i)"
        by (simp add: list_all2_nthD)
      moreover have "fp (fs ! i) < next_ref ?h"
        using alloc i by simp
      ultimately show "copy_of ?h h2 (fs ! i) (cs ! i)"
        using nr1 old1 by (rule copy_of_rebase)
    qed
    have fresh: "\<forall>c' \<in> set cs. next_ref h1 \<le> fp c'"
      using cs(2) by (auto simp: list_all2_conv_all_nth in_set_conv_nth copy_of_iff)
    have 2: "\<forall>c. r1 = Some (VFile c) \<longrightarrow> fp c \<notin> set (map fp cs)"
    proof (intro allI impI)
      fix c assume "r1 = Some (VFile c)"
      with lt1 have "fp c < next_ref h1" by simp
      with fresh show "fp c \<notin> set (map fp cs)" by auto
    qed
    from cs(1) 1 cs(3) 2
    show "\<exists>cs. r2 = Some (VList (map VFile cs))
                 \<and> list_all2 (copy_of ?h h2) fs cs \<and> distinct (map fp cs)
                 \<and> (\<forall>c. r1 = Some (VFile c) \<longrightarrow> fp c \<notin> set (map fp cs))"
      by blast
  qed
  show ?thesis
    by (rule exI[of _ r1], rule exI[of _ r2], rule exI[of _ h2], intro conjI)
       (rule run old none1 file2 none2 files3)+
qed

lemma DirectMessageListener_handle_sends:
  "(fst (DirectMessageListener_handle self p g content attrs w) = Inr () \<longrightarrow>
      (\<exists>kw. dm_sent (snd (DirectMessageListener_handle self p g content attrs w))
               = dm_sent w @ [(user self, kw)]
         \<and> kw_content kw = (case g of None \<Rightarrow> content
                            | Some gd \<Rightarrow> lit ''['' @ name gd @ lit ''] '' @ content)))
   \<and> (fst (DirectMessageListener_handle self p g content attrs w) \<noteq> Inr () \<longrightarrow>
      dm_sent (snd (DirectMessageListener_handle self p g content attrs w)) = dm_sent w)"
  by (simp add: DirectMessageListener_handle_def user_send_def split: prod.splits sum.splits)

text \<open>
  Claim C5. For every event handled by DirectMessageListener whose scope is present, the
  delivered content is the original content prefixed with the scope's name in square
  brackets and a space (the scope named \<open>Test Guild\<close> and the content \<open>Added X and Y\<close> give
  \<open>[Test Guild] Added X and Y\<close>); for every event whose scope is absent, the content is
  delivered unchanged. When the handler returns it has sent exactly one message, with that
  content; when it raises it has sent none; and it returns whenever the attachments of the
  event are attachments.
\<close>

theorem dm_handle_scope_prefix:
  "(fst (DirectMessageListener_handle self p g content attrs w) = Inr () \<longrightarrow>
      (\<exists>kw. dm_sent (snd (DirectMessageListener_handle self p g content attrs w))
               = dm_sent w @ [(user self, kw)]
         \<and> (\<forall>gd. g = Some gd \<longrightarrow> kw_content kw = lit ''['' @ name gd @ lit ''] '' @ content)
         \<and> (g = None \<longrightarrow> kw_content kw = content)))
   \<and> (fst (DirectMessageListener_handle self p g content attrs w) \<noteq> Inr () \<longrightarrow>
      dm_sent (snd (DirectMessageListener_handle self p g content attrs w)) = dm_sent w)
   \<and> (attachments_ok (heap w) attrs \<longrightarrow>
      fst (DirectMessageListener_handle self p g content attrs w) = Inr ())"
proof (intro conjI impI)
  assume "fst (DirectMessageListener_handle self p g content attrs w) = Inr ()"
  with DirectMessageListener_handle_sends[of self p g content attrs w]
  obtain kw where kw:
    "dm_sent (snd (DirectMessageListener_handle self p g content attrs w))
       = dm_sent w @ [(user self, kw)]"
    "kw_content kw = (case g of None \<Rightarrow> content
                      | Some gd \<Rightarrow> lit ''['' @ name gd @ lit ''] '' @ content)"
    by blast
  from kw(2) have "(\<forall>gd. g = Some gd \<longrightarrow> kw_content kw = lit ''['' @ name gd @ lit ''] '' @ content)
      \<and> (g = None \<longrightarrow> kw_content kw = content)"
    by (cases g) simp_all
  with kw(1) show "\<exists>kw. dm_sent (snd (DirectMessageListener_handle self p g content attrs w))
               = dm_sent w @ [(user self, kw)]
         \<and> (\<forall>gd. g = Some gd \<longrightarrow> kw_content kw = lit ''['' @ name gd @ lit ''] '' @ content)
         \<and> (g = None \<longrightarrow> kw_content kw = content)"
    by blast
next
  assume "fst (DirectMessageListener_handle self p g content attrs w) \<noteq> Inr ()"
  with DirectMessageListener_handle_sends[of self p g content attrs w]
  show "dm_sent (snd (DirectMessageListener_handle self p g content attrs w)) = dm_sent w"
    by blast
next
  assume "attachments_ok (heap w) attrs"
  from DirectMessageListener_handle_ok[OF this, of self p g content]
  show "fst (DirectMessageListener_handle self p g content attrs w) = Inr ()"
    by auto
qed

theorem dm_handle_scope_prefix_witness:
  "fst (DirectMessageListener_handle (DirectMessageListener_init 0 (lit ''/alts'') 42 True)
       (lit ''/alts/add'') (Some \<lparr>name = lit ''Test Guild'', channels = [7]\<rparr>)
       (lit ''Added X and Y'') Map.empty
       \<lparr>heap = \<lparr>streams = (\<lambda>r. \<lparr>data = [], pos = 0\<rparr>), next_ref = 0\<rparr>, dm_sent = []\<rparr>)
     = Inr ()
   \<and> (\<exists>kw.
     dm_sent (snd (DirectMessageListener_handle (DirectMessageListener_init 0 (lit ''/alts'') 42 True)
       (lit ''/alts/add'') (Some \<lparr>name = lit ''Test Guild'', channels = [7]\<rparr>)
       (lit ''Added X and Y'') Map.empty
       \<lparr>heap = \<lparr>streams = (\<lambda>r. \<lparr>data = [], pos = 0\<rparr>), next_ref = 0\<rparr>, dm_sent = []\<rparr>))
     = [(42, kw)]
     \<and> kw_content kw = lit ''[Test Guild] Added X and Y'')"
  using dm_handle_scope_prefix
    [of "DirectMessageListener_init 0 (lit ''/alts'') 42 True"
        "lit ''/alts/add''" "Some \<lparr>name = lit ''Test Guild'', channels = [7]\<rparr>"
        "lit ''Added X and Y''" Map.empty
        "\<lparr>heap = \<lparr>streams = (\<lambda>r. \<lparr>data = [], pos = 0\<rparr>), next_ref = 0\<rparr>, dm_sent = []\<rparr>"]
  by (simp add: attachments_ok_def DirectMessageListener_init_def lit_Nil lit_Cons)

text \<open>
  Claim C6. For every event handled by DirectMessageListener, the outgoing payload holds the
  \<open>embed\<close> attribute verbatim when present; when \<open>file\<close> is present, a duplicated copy of
  that attachment (same bytes, same file name, a stream of its own, readable in full); when
  \<open>files\<close> is the list \<open>f1, ..., fn\<close>, a list of \<open>n\<close> duplicated attachments in the same
  order, each such a copy of the corresponding original, on streams that differ from one
  another and from the copy of \<open>file\<close>; a key absent from the attributes gives no entry of
  the payload. The streams that existed before are left as they were, and reading one
  stream leaves every other stream as it was, whatever the order of consumption.
\<close>

theorem dm_handle_payload_attachments:
  assumes "attachments_ok (heap w) attrs"
  shows "\<exists>kw h'.
     DirectMessageListener_handle self p g content attrs w
       = (Inr (), w\<lparr>heap := h', dm_sent := dm_sent w @ [(user self, kw)]\<rparr>)
     \<and> kw_embed kw = attrs (lit ''embed'')
     \<and> (attrs (lit ''file'') = None \<longrightarrow> kw_file kw = None)
     \<and> (\<forall>f. attrs (lit ''file'') = Some (VFile f)
           \<longrightarrow> (\<exists>c. kw_file kw = Some (VFile c) \<and> copy_of (heap w) h' f c))
     \<and> (attrs (lit ''files'') = None \<longrightarrow> kw_files kw = None)
     \<and> (\<forall>fs. attrs (lit ''files'') = Some (VList (map VFile fs))
           \<longrightarrow> (\<exists>cs. kw_files kw = Some (VList (map VFile cs))
                 \<and> list_all2 (copy_of (heap w) h') fs cs \<and> distinct (map fp cs)
                 \<and> (\<forall>c. kw_file kw = Some (VFile c) \<longrightarrow> fp c \<notin> set (map fp cs))))
     \<and> (\<forall>x < next_ref (heap w). streams h' x = streams (heap w) x)
     \<and> (\<forall>r r'. r \<noteq> r' \<longrightarrow> streams (snd (stream_read r h')) r' = streams h' r')"
proof -
  from DirectMessageListener_handle_ok[OF assms, of self p g content]
  obtain file' files' h' where
    run: "DirectMessageListener_handle self p g content attrs w
       = (Inr (),
          w\<lparr>heap := h',
            dm_sent := dm_sent w @
              [(user self,
                \<lparr>kw_content = (case g of None \<Rightarrow> content
                                | Some gd \<Rightarrow> lit ''['' @ name gd @ lit ''] '' @ content),
                 kw_embed = attrs (lit ''embed''), kw_file = file', kw_files = files'\<rparr>)]\<rparr>)"
    and old: "\<forall>x < next_ref (heap w). streams h' x = streams (heap w) x"
    and none1: "attrs (lit ''file'') = None \<longrightarrow> file' = None"
    and file1: "\<forall>f. attrs (lit ''file'') = Some (VFile f)
           \<longrightarrow> (\<exists>c. file' = Some (VFile c) \<and> copy_of (heap w) h' f c)"
    and none2: "attrs (lit ''files'') = None \<longrightarrow> files' = None"
    and files2: "\<forall>fs. attrs (lit ''files'') = Some (VList (map VFile fs))
           \<longrightarrow> (\<exists>cs. files' = Some (VList (map VFile cs))
                 \<and> list_all2 (copy_of (heap w) h') fs cs \<and> distinct (map fp cs)
                 \<and> (\<forall>c. file' = Some (VFile c) \<longrightarrow> fp c \<notin> set (map fp cs)))"
    by (elim exE conjE) (rule that)
  let ?kw = "\<lparr>kw_content = (case g of None \<Rightarrow> content
                                | Some gd \<Rightarrow> lit ''['' @ name gd @ lit ''] '' @ content),
                 kw_embed = attrs (lit ''embed''), kw_file = file', kw_files = files'\<rparr>"
  have indep: "\<forall>r r'. r \<noteq> r' \<longrightarrow> streams (snd (stream_read r h')) r' = streams h' r'"
    by (simp add: stream_read_other)
  show ?thesis
    apply (rule exI[of _ ?kw], rule exI[of _ h'])
    using run old none1 file1 none2 files2 indep by simp
qed

theorem dm_handle_payload_attachments_witness:
  "\<exists>kw h' c cs.
     DirectMessageListener_handle (DirectMessageListener_init 0 (lit ''/alts'') 42 True)
       (lit ''/alts/add'') None (lit ''see attached'')
       [lit ''embed'' \<mapsto> VObj 5,
        lit ''file'' \<mapsto> VFile \<lparr>fp = 0, filename = lit ''a.png''\<rparr>,
        lit ''files'' \<mapsto> VList (map VFile [\<lparr>fp = 1, filename = lit ''b.png''\<rparr>,
                                          \<lparr>fp = 0, filename = lit ''c.png''\<rparr>])]
       \<lparr>heap = \<lparr>streams = (\<lambda>r. \<lparr>data = [], pos = 0\<rparr>)
                          (0 := \<lparr>data = [1, 2, 3], pos = 3\<rparr>, 1 := \<lparr>data = [4, 5], pos = 0\<rparr>),
                next_ref = 2\<rparr>,
        dm_sent = []\<rparr>
     = (Inr (), \<lparr>heap = h', dm_sent = [(42, kw)]\<rparr>)
     \<and> kw_embed kw = Some (VObj 5)
     \<and> kw_file kw = Some (VFile c)
     \<and> filename c = lit ''a.png''
     \<and> fst (stream_read (fp c) h') = [1, 2, 3]
     \<and> kw_files kw = Some (VList (map VFile cs))
     \<and> map filename cs = [lit ''b.png'', lit ''c.png'']
     \<and> map (\<lambda>c. fst (stream_read (fp c) h')) cs = [[4, 5], [1, 2, 3]]
     \<and> distinct (map fp (c # cs))"
proof -
  let ?f0 = "\<lparr>fp = 0, filename = lit ''a.png''\<rparr>"
  let ?fs = "[\<lparr>fp = 1, filename = lit ''b.png''\<rparr>, \<lparr>fp = 0, filename = lit ''c.png''\<rparr>]"
  let ?attrs = "[lit ''embed'' \<mapsto> VObj 5, lit ''file'' \<mapsto> VFile ?f0,
                 lit ''files'' \<mapsto> VList (map VFile ?fs)]"
  let ?h = "\<lparr>streams = (\<lambda>r. \<lparr>data = [], pos = 0\<rparr>)
                          (0 := \<lparr>data = [1, 2, 3], pos = 3\<rparr>, 1 := \<lparr>data = [4, 5], pos = 0\<rparr>),
                next_ref = 2\<rparr>"
  let ?w = "\<lparr>heap = ?h, dm_sent = []\<rparr>"
  let ?self = "DirectMessageListener_init 0 (lit ''/alts'') 42 True"
  have ok: "attachments_ok (heap ?w) ?attrs"
    by (simp add: attachments_ok_def lit_Nil lit_Cons)
  have a_embed: "?attrs (lit ''embed'') = Some (VObj 5)"
    and a_file: "?attrs (lit ''file'') = Some (VFile ?f0)"
    and a_files: "?attrs (lit ''files'') = Some (VList (map VFile ?fs))"
    by (simp_all add: lit_Nil lit_Cons)
  from dm_handle_payload_attachments[OF ok, of ?self "lit ''/alts/add''" None "lit ''see attached''"]
  obtain kw h' where
    run: "DirectMessageListener_handle ?self (lit ''/alts/add'') None (lit ''see attached'') ?attrs ?w
       = (Inr (), ?w\<lparr>heap := h', dm_sent := dm_sent ?w @ [(user ?self, kw)]\<rparr>)"
    and e: "kw_embed kw = ?attrs (lit ''embed'')"
    and f: "\<forall>f. ?attrs (lit ''file'') = Some (VFile f)
           \<longrightarrow> (\<exists>c. kw_file kw = Some (VFile c) \<and> copy_of (heap ?w) h' f c)"
    and fs: "\<forall>fs. ?attrs (lit ''files'') = Some (VList (map VFile fs))
           \<longrightarrow> (\<exists>cs. kw_files kw = Some (VList (map VFile cs))
                 \<and> list_all2 (copy_of (heap ?w) h') fs cs \<and> distinct (map fp cs)
                 \<and> (\<forall>c. kw_file kw = Some (VFile c) \<longrightarrow> fp c \<notin> set (map fp cs)))"
    by (elim exE conjE) (rule that)
  from f a_file obtain c where c: "kw_file kw = Some (VFile c)" "copy_of (heap ?w) h' ?f0 c"
    by blast
  from fs a_files obtain cs where cs: "kw_files kw = Some (VList (map VFile cs))"
    "list_all2 (copy_of (heap ?w) h') ?fs cs" "distinct (map fp cs)"
    "\<forall>c. kw_file kw = Some (VFile c) \<longrightarrow> fp c \<notin> set (map fp cs)"
    by blast
  from cs(2) obtain c1 c2 where cs_eq: "cs = [c1, c2]"
    and c1: "copy_of (heap ?w) h' \<lparr>fp = 1, filename = lit ''b.png''\<rparr> c1"
    and c2: "copy_of (heap ?w) h' \<lparr>fp = 0, filename = lit ''c.png''\<rparr> c2"
    by (auto simp: list_all2_Cons1)
  have 1: "DirectMessageListener_handle ?self (lit ''/alts/add'') None (lit ''see attached'') ?attrs ?w
       = (Inr (), \<lparr>heap = h', dm_sent = [(42, kw)]\<rparr>)"
    using run by (simp add: DirectMessageListener_init_def)
  have 2: "kw_embed kw = Some (VObj 5)" using e a_embed by simp
  have 3: "filename c = lit ''a.png''" "fst (stream_read (fp c) h') = [1, 2, 3]"
    using c(2) by (simp_all add: copy_of_def)
  have 4: "map filename cs = [lit ''b.png'', lit ''c.png'']"
    "map (\<lambda>c. fst (stream_read (fp c) h')) cs = [[4, 5], [1, 2, 3]]"
    using c1 c2 cs_eq by (simp_all add: copy_of_def)
  have 5: "distinct (map fp (c # cs))"
    using cs(3) cs(4) c(1) by simp
  show ?thesis
    by (rule exI[of _ kw], rule exI[of _ h'], rule exI[of _ c], rule exI[of _ cs], intro conjI)
       (rule 1 2 c(1) 3 cs(1) 4 5)+
qed

section \<open>Properties of the alias cog\<close>

lemma EXTENSION_REGEX_match_dot:
  "\<not> prefix (lit ''.'') url \<Longrightarrow> EXTENSION_REGEX_match url = None"
  by (cases url) (simp_all add: EXTENSION_REGEX_match_def lit_Nil lit_Cons)

lemma EXTENSION_REGEX_match_examples:
  "EXTENSION_REGEX_match (lit ''.png?size=1024'') = Some (lit ''png'')"
  "EXTENSION_REGEX_match (lit ''https://cdn.discordapp.com/avatars/1/def.png?size=1024'') = None"
  "EXTENSION_REGEX_match (lit ''.png?'') = None"
  "EXTENSION_REGEX_match (lit ''.PNG?size=1024'') = None"
  by (simp_all add: EXTENSION_REGEX_match_def lower_def lit_Nil lit_Cons)

lemma member_changes_avatar:
  "avatar before \<noteq> avatar after \<Longrightarrow>
     avatar_url (member_changes before after) = Some (member_avatar_url after)
     \<and> MemberChanges_bool (member_changes before after)"
  by (simp add: member_changes_def MemberChanges_bool_def MemberChanges_init_def Let_def)

lemma member_update_nick_example:
  "member_update
     \<lparr>download_link = (\<lambda>u. Inr [137, 80, 78, 71]), user_discrim = member_name,
      find_user = (\<lambda>n g. None), written = (\<lambda>sep. concat), written_lines = concat\<rparr>
     1541289600
     \<lparr>member_id = 1, member_name = lit ''ana'', nick = None, display_name = lit ''ana'',
      avatar = Some (lit ''abc''), member_avatar_url = lit ''u'',
      mention = lit ''<@1>'', member_guild = \<lparr>name = lit ''G'', channels = [7]\<rparr>\<rparr>
     \<lparr>member_id = 1, member_name = lit ''ana'', nick = Some (lit ''an''),
      display_name = lit ''an'',
      avatar = Some (lit ''abc''), member_avatar_url = lit ''u'',
      mention = lit ''<@1>'', member_guild = \<lparr>name = lit ''G'', channels = [7]\<rparr>\<rparr>
     \<lparr>sql = [], journal = [], replies = []\<rparr>
   = (Inr (),
      \<lparr>sql = [add_nickname
                \<lparr>member_id = 1, member_name = lit ''ana'', nick = None,
                 display_name = lit ''ana'', avatar = Some (lit ''abc''),
                 member_avatar_url = lit ''u'', mention = lit ''<@1>'',
                 member_guild = \<lparr>name = lit ''G'', channels = [7]\<rparr>\<rparr>
                1541289600 (lit ''an'')],
       journal =
         [\<lparr>ev_path = lit ''member/update'',
           ev_guild = Some \<lparr>name = lit ''G'', channels = [7]\<rparr>,
           ev_content = lit ''Member ana was updated: nick: an'',
           ev_attributes =
             member_update_attributes
               \<lparr>member_id = 1, member_name = lit ''ana'', nick = None,
                display_name = lit ''ana'', avatar = Some (lit ''abc''),
                member_avatar_url = lit ''u'', mention = lit ''<@1>'',
                member_guild = \<lparr>name = lit ''G'', channels = [7]\<rparr>\<rparr>
               \<lparr>member_id = 1, member_name = lit ''ana'', nick = Some (lit ''an''),
                display_name = lit ''an'', avatar = Some (lit ''abc''),
                member_avatar_url = lit ''u'', mention = lit ''<@1>'',
                member_guild = \<lparr>name = lit ''G'', channels = [7]\<rparr>\<rparr>
               \<lparr>avatar_url = None, username = None, nickname = Some (lit ''an'')\<rparr>\<rparr>],
       replies = []\<rparr>)"
  by (simp add: member_update_def member_changes_def MemberChanges_init_def
        MemberChanges_bool_def avatar_and_ext_def transaction_rows_def journal_send_def
        lit_Nil lit_Cons)

lemma member_update_unchanged:
  "avatar before = avatar after \<Longrightarrow> member_name before = member_name after \<Longrightarrow>
   nick before = nick after \<Longrightarrow>
   member_update ext timestamp before after w = (Inr (), w)"
  by (simp add: member_update_def member_changes_def MemberChanges_init_def
        MemberChanges_bool_def)

text \<open>
  Claim C10. For every member update in which the avatar changed, \<^verbatim>\<open>member_update\<close> raises
  unless the avatar URL begins with the character \<open>.\<close>, because the pattern is matched
  from the start of the URL: no row is written and no event is sent, and the exception is
  the \<^verbatim>\<open>ValueError\<close> of the failed match whenever the download before it returned. So it
  is for every URL that starts with a scheme such as \<open>https\<close>.
\<close>

theorem member_update_avatar_url_rejected:
  assumes "avatar before \<noteq> avatar after"
    and "\<not> prefix (lit ''.'') (member_avatar_url after)"
  shows "(\<exists>e. member_update ext timestamp before after w = (Inl e, w))
     \<and> (\<forall>bytes. download_link ext (member_avatar_url after) = Inr bytes \<longrightarrow>
           member_update ext timestamp before after w
             = (Inl (ValueError (lit ''Avatar URL does not match extension regex: ''
                                   @ member_avatar_url after)), w))"
proof -
  from assms(1) have ch: "avatar_url (member_changes before after) = Some (member_avatar_url after)"
    and b: "MemberChanges_bool (member_changes before after)"
    by (simp_all add: member_changes_avatar)
  from assms(2) have m: "EXTENSION_REGEX_match (member_avatar_url after) = None"
    by (rule EXTENSION_REGEX_match_dot)
  show ?thesis
    using ch b m
    by (cases "download_link ext (member_avatar_url after)")
       (simp_all add: member_update_def avatar_and_ext_def)
qed

theorem member_update_avatar_url_rejected_witness:
  "member_update
     \<lparr>download_link = (\<lambda>u. Inr [137, 80, 78, 71]), user_discrim = member_name,
      find_user = (\<lambda>n g. None), written = (\<lambda>sep. concat), written_lines = concat\<rparr>
     1541289600
     \<lparr>member_id = 1, member_name = lit ''ana'', nick = None, display_name = lit ''ana'',
      avatar = Some (lit ''abc''),
      member_avatar_url = lit ''https://cdn.discordapp.com/avatars/1/abc.png?size=1024'',
      mention = lit ''<@1>'', member_guild = \<lparr>name = lit ''G'', channels = [7]\<rparr>\<rparr>
     \<lparr>member_id = 1, member_name = lit ''ana'', nick = None, display_name = lit ''ana'',
      avatar = Some (lit ''def''),
      member_avatar_url = lit ''https://cdn.discordapp.com/avatars/1/def.png?size=1024'',
      mention = lit ''<@1>'', member_guild = \<lparr>name = lit ''G'', channels = [7]\<rparr>\<rparr>
     \<lparr>sql = [], journal = [], replies = []\<rparr>
   = (Inl (ValueError (lit ''Avatar URL does not match extension regex: ''
         @ lit ''https://cdn.discordapp.com/avatars/1/def.png?size=1024'')),
      \<lparr>sql = [], journal = [], replies = []\<rparr>)"
  using member_update_avatar_url_rejected
    [of "\<lparr>member_id = 1, member_name = lit ''ana'', nick = None, display_name = lit ''ana'',
      avatar = Some (lit ''abc''),
      member_avatar_url = lit ''https://cdn.discordapp.com/avatars/1/abc.png?size=1024'',
      mention = lit ''<@1>'', member_guild = \<lparr>name = lit ''G'', channels = [7]\<rparr>\<rparr>"
     "\<lparr>member_id = 1, member_name = lit ''ana'', nick = None, display_name = lit ''ana'',
      avatar = Some (lit ''def''),
      member_avatar_url = lit ''https://cdn.discordapp.com/avatars/1/def.png?size=1024'',
      mention = lit ''<@1>'', member_guild = \<lparr>name = lit ''G'', channels = [7]\<rparr>\<rparr>"
     "\<lparr>download_link = (\<lambda>u. Inr [137, 80, 78, 71]), user_discrim = member_name,
      find_user = (\<lambda>n g. None), written = (\<lambda>sep. concat), written_lines = concat\<rparr>"
     1541289600 "\<lparr>sql = [], journal = [], replies = []\<rparr>"]
  by (simp add: lit_Nil lit_Cons)

lemma add_alt_journal:
  "find_user ext first_name g = Some first_user \<Longrightarrow>
   find_user ext second_name g = Some second_user \<Longrightarrow>
   journal (add_alt ext g first_name second_name w)
     = journal w @
       [\<lparr>ev_path = lit ''alt/add'', ev_guild = Some g,
         ev_content = lit ''Added '' @ mention first_user @ lit '' and '' @ mention second_user
                        @ lit '' as possible alt accounts.'',
         ev_attributes = add_alt_attributes first_user second_user\<rparr>]"
  by (simp add: add_alt_def journal_send_def)

lemma del_alt_chain_journal:
  "find_user ext n g = Some u \<Longrightarrow>
   journal (del_alt_chain ext g n w)
     = journal w @
       [\<lparr>ev_path = lit ''alt/clear'', ev_guild = Some g,
         ev_content = lit ''Removed all alt accounts in '' @ mention u @ [0x27] @ lit ''s chain'',
         ev_attributes = del_alt_chain_attributes u\<rparr>]"
  by (simp add: del_alt_chain_def journal_send_def)

text \<open>
  Claim C4. Every icon name passed as the \<open>icon\<close> attribute at a \<^verbatim>\<open>journal.send\<close> call
  site (\<open>person\<close>, \<open>item_add\<close>, \<open>item_clear\<close>) is a key of \<open>ICONS\<close>. The code does not
  keep this: \<open>item_add\<close> and \<open>item_clear\<close> are no keys of \<open>ICONS\<close>, and the channel sink
  raises \<^verbatim>\<open>KeyError\<close> on the events of \<^verbatim>\<open>add_alt\<close> and \<^verbatim>\<open>del_alt_chain\<close> and sends
  nothing.
\<close>

theorem producer_icons_unregistered:
  "map_of ICONS (lit ''item_add'') = None
   \<and> map_of ICONS (lit ''item_clear'') = None
   \<and> ChannelOutputListener_handle self p g content (add_alt_attributes first_user second_user) st
       = (Inl (KeyError (VStr (lit ''item_add''))), st)
   \<and> ChannelOutputListener_handle self p g content (del_alt_chain_attributes u) st
       = (Inl (KeyError (VStr (lit ''item_clear''))), st)"
  by (simp add: ChannelOutputListener_handle_def attributes_get_def add_alt_attributes_def
        del_alt_chain_attributes_def ICONS_def lit_Nil lit_Cons)

end
